theory Spec2Isabelle
  imports Complex_Main
begin

section \<open>Configuration\<close>

text \<open>
  The module-level constants of \<^verbatim>\<open>data_maryland.py\<close>. The script has one function,
  \<^verbatim>\<open>fetch_acs_county_year\<close>, and a module body that runs the fetch loop, the guard, the
  aggregation, the printing and the two charts in that order.
\<close>

definition YEARS :: "int list" where
  "YEARS = [2012, 2014, 2016, 2018, 2022]"

definition STATE_FIPS :: string where
  "STATE_FIPS = ''24''"

definition VAR_INCOME :: string where
  "VAR_INCOME = ''B19013_001E''"

definition VAR_GINI :: string where
  "VAR_GINI = ''B19083_001E''"

section \<open>Data model\<close>

text \<open>
  A cell of the JSON table the API answers with: \<open>Null\<close> is JSON null (Python's None,
  which pandas treats as missing), \<open>Str\<close> a JSON string, \<open>Num\<close> a JSON number.
  The float64 values of the numeric columns are idealised as reals, and a missing value
  (NaN) is \<open>None\<close>: rounding and the infinities are outside this development.
\<close>

datatype cell = Null | Str string | Num real

text \<open>
  The frame \<^verbatim>\<open>pd.DataFrame(data[1:], columns=data[0])\<close>: the column labels of the header
  row, and the data rows, each giving the cell under a label. The list of labels may
  repeat a label, as a header may; a row has one cell per label, so the cells of a
  repeated column are not told apart. The fetcher raises when one of the two variable
  labels is repeated; where a statement depends on the cells of the other columns it
  assumes the labels distinct.
\<close>

record dataframe =
  columns :: "string list"
  rows :: "(string \<Rightarrow> cell) list"

text \<open>
  The exceptions of a run. \<open>RequestError\<close> stands for whatever \<^verbatim>\<open>requests.get\<close>,
  \<^verbatim>\<open>raise_for_status\<close>, \<^verbatim>\<open>r.json()\<close> or the frame constructor raised, with its message.
\<close>

datatype exn =
    RequestError string
  | KeyError "string list"
  | TypeError string
  | ValueError string
  | RuntimeError string

text \<open>
  One row of the frame \<^verbatim>\<open>fetch_acs_county_year\<close> returns, with its six columns
  \<^verbatim>\<open>NAME, state, county, year, income, gini\<close>.
\<close>

record county_year =
  NAME :: cell
  state :: cell
  county :: cell
  year :: int
  income :: "real option"
  gini :: "real option"

text \<open>
  The network and the parsing of a cell are parameters of the model:
  \<^item> \<open>get yr\<close> is the outcome of the request for year \<open>yr\<close> (the URL and the query are
    fixed by the year and the constants above): \<open>Inl e\<close> when the request, the status
    check, the JSON decoding or the frame constructor raised \<open>e\<close>, \<open>Inr df\<close> the frame
    built from the body otherwise;
  \<^item> \<open>parse c\<close> is the number the library reads a cell \<open>c\<close> as, or \<open>None\<close> for a cell
    it cannot read as a number.
\<close>

type_synonym request = "int \<Rightarrow> exn + dataframe"
type_synonym coercion = "cell \<Rightarrow> real option"

section \<open>The fetcher\<close>

text \<open>
  \<^verbatim>\<open>df[label]\<close> raises KeyError when the frame has no such column, is the column (a
  series) when the label occurs once, and is a frame when the label is repeated.
\<close>

datatype selection = Series "cell list" | Frame

definition getitem :: "dataframe \<Rightarrow> string \<Rightarrow> exn + selection" where
  "getitem df label =
     (if label \<notin> set (columns df) then Inl (KeyError [label])
      else if count_list (columns df) label = 1 then Inr (Series (map (\<lambda>r. r label) (rows df)))
      else Inr Frame)"

text \<open>
  \<^verbatim>\<open>pd.to_numeric(arg, errors=...)\<close>: a frame is refused with TypeError. On a series, a
  null cell becomes NaN, a cell that parses becomes its number, and a cell that does not
  parse raises ValueError under \<^verbatim>\<open>errors="raise"\<close> (the default) and becomes NaN under
  \<^verbatim>\<open>errors="coerce"\<close>.
\<close>

datatype errors_arg = Errors_raise | Errors_coerce

definition to_float :: "coercion \<Rightarrow> cell \<Rightarrow> real option" where
  "to_float parse c = (if c = Null then None else parse c)"

definition to_numeric :: "errors_arg \<Rightarrow> coercion \<Rightarrow> selection \<Rightarrow> exn + real option list" where
  "to_numeric errors parse arg =
     (case arg of
        Frame \<Rightarrow> Inl (TypeError ''arg must be a list, tuple, 1-d array, or Series'')
      | Series col \<Rightarrow>
          if errors = Errors_raise \<and> list_ex (\<lambda>c. c \<noteq> Null \<and> parse c = None) col
          then Inl (ValueError ''Unable to parse string'')
          else Inr (map (to_float parse) col))"

text \<open>
  The body of \<^verbatim>\<open>fetch_acs_county_year\<close> after the request: the \<^verbatim>\<open>year\<close> column is
  assigned; \<^verbatim>\<open>df[VAR_INCOME]\<close> is selected and converted with \<^verbatim>\<open>errors="coerce"\<close>, then
  \<^verbatim>\<open>df[VAR_GINI]\<close>; \<^verbatim>\<open>dropna\<close> keeps the rows where both numeric columns are present; the
  final projection raises KeyError naming the columns among \<^verbatim>\<open>NAME, state, county\<close> that
  the frame lacks.
\<close>

definition assign_columns ::
    "int \<Rightarrow> (string \<Rightarrow> cell) list \<Rightarrow> real option list \<Rightarrow> real option list
      \<Rightarrow> county_year list" where
  "assign_columns yr rs incomes ginis =
     map (\<lambda>(r, inc, gi).
            \<lparr>NAME = r ''NAME'', state = r ''state'', county = r ''county'', year = yr,
             income = inc, gini = gi\<rparr>)
       (zip rs (zip incomes ginis))"

definition notna_both :: "county_year \<Rightarrow> bool" where
  "notna_both r = (income r \<noteq> None \<and> gini r \<noteq> None)"

definition dropna :: "county_year list \<Rightarrow> county_year list" where
  "dropna df = filter notna_both df"

definition missing_columns :: "dataframe \<Rightarrow> string list" where
  "missing_columns df =
     filter (\<lambda>c. c \<notin> set (columns df)) [''NAME'', ''state'', ''county'']"

definition fetch_acs_county_year ::
    "request \<Rightarrow> coercion \<Rightarrow> int \<Rightarrow> exn + county_year list" where
  "fetch_acs_county_year get parse yr =
     (case get yr of
        Inl e \<Rightarrow> Inl e
      | Inr df \<Rightarrow>
          (case getitem df VAR_INCOME of
             Inl e \<Rightarrow> Inl e
           | Inr income_arg \<Rightarrow>
               (case to_numeric Errors_coerce parse income_arg of
                  Inl e \<Rightarrow> Inl e
                | Inr incomes \<Rightarrow>
                    (case getitem df VAR_GINI of
                       Inl e \<Rightarrow> Inl e
                     | Inr gini_arg \<Rightarrow>
                         (case to_numeric Errors_coerce parse gini_arg of
                            Inl e \<Rightarrow> Inl e
                          | Inr ginis \<Rightarrow>
                              if missing_columns df \<noteq> []
                              then Inl (KeyError (missing_columns df))
                              else Inr (dropna (assign_columns yr (rows df) incomes ginis)))))))"

section \<open>The fetch loop\<close>

text \<open>
  What the script writes and shows, in order: the \<^verbatim>\<open>[OK]\<close> line of a year with its
  number of rows, the \<^verbatim>\<open>[FAIL]\<close> line of a year with its exception, a fixed line of
  text, the three printed results, a chart (the calls from \<^verbatim>\<open>plt.figure()\<close> to
  \<^verbatim>\<open>plt.show()\<close>, with its title and the points plotted), and a line of the failed-year
  listing. The tables are kept as values: the layout \<^verbatim>\<open>to_string\<close> gives them is not
  modelled. The first record is a row of the aggregate table \<^verbatim>\<open>state_trend\<close>.
\<close>

record trend =
  trend_year :: int
  avg_income :: "real option"
  median_income :: "real option"
  avg_gini :: "real option"
  median_gini :: "real option"
  n_counties :: nat

datatype event =
    Print_ok int nat
  | Print_fail int exn
  | Print_line string
  | Print_state_trend "trend list"
  | Print_corr_by_year "(int \<times> real option) list"
  | Print_overall_corr "real option"
  | Show_plot string "(int \<times> real option) list"
  | Print_failed_year int exn

text \<open>
  The two accumulators of the module body and its standard output. The failure list
  holds the year with the exception; the script stores the exception's message
  \<^verbatim>\<open>str(e)\<close>.
\<close>

record accum =
  all_dfs :: "county_year list list"
  failed_years :: "(int \<times> exn) list"
  stdout :: "event list"

definition init_accum :: accum where
  "init_accum = \<lparr>all_dfs = [], failed_years = [], stdout = []\<rparr>"

definition fetch_step :: "request \<Rightarrow> coercion \<Rightarrow> int \<Rightarrow> accum \<Rightarrow> accum" where
  "fetch_step get parse y s =
     (case fetch_acs_county_year get parse y of
        Inr df_y \<Rightarrow>
          s\<lparr>all_dfs := all_dfs s @ [df_y],
            stdout := stdout s @ [Print_ok y (length df_y)]\<rparr>
      | Inl e \<Rightarrow>
          s\<lparr>failed_years := failed_years s @ [(y, e)],
            stdout := stdout s @ [Print_fail y e]\<rparr>)"

fun fetch_loop :: "request \<Rightarrow> coercion \<Rightarrow> int list \<Rightarrow> accum \<Rightarrow> accum" where
  "fetch_loop get parse [] s = s"
| "fetch_loop get parse (y # ys) s =
     fetch_loop get parse ys (fetch_step get parse y s)"

section \<open>The aggregator\<close>

text \<open>
  \<^verbatim>\<open>groupby("year")\<close>: the group keys are the distinct years of the frame in ascending
  order, and the group of a key holds the frame's rows of that year, in the frame's order.
\<close>

definition group_keys :: "county_year list \<Rightarrow> int list" where
  "group_keys df = sort (remdups (map year df))"

definition get_group :: "county_year list \<Rightarrow> int \<Rightarrow> county_year list" where
  "get_group df y = filter (\<lambda>r. year r = y) df"

text \<open>
  The aggregations skip missing values: \<^verbatim>\<open>mean\<close> and \<^verbatim>\<open>median\<close> are taken over the values
  present (NaN when there is none), and \<^verbatim>\<open>count\<close> is the number of cells of the column
  that are not null.
\<close>

definition notna_values :: "(county_year \<Rightarrow> real option) \<Rightarrow> county_year list \<Rightarrow> real list" where
  "notna_values col g = List.map_filter col g"

definition mean :: "real list \<Rightarrow> real option" where
  "mean xs = (if xs = [] then None else Some (sum_list xs / real (length xs)))"

definition median :: "real list \<Rightarrow> real option" where
  "median xs =
     (let s = sort xs; n = length s
      in if n = 0 then None
         else if odd n then Some (s ! (n div 2))
         else Some ((s ! (n div 2 - 1) + s ! (n div 2)) / 2))"

definition count :: "(county_year \<Rightarrow> cell) \<Rightarrow> county_year list \<Rightarrow> nat" where
  "count col g = length (filter (\<lambda>r. col r \<noteq> Null) g)"

definition agg :: "int \<Rightarrow> county_year list \<Rightarrow> trend" where
  "agg y g =
     \<lparr>trend_year = y,
      avg_income = mean (notna_values income g),
      median_income = median (notna_values income g),
      avg_gini = mean (notna_values gini g),
      median_gini = median (notna_values gini g),
      n_counties = count NAME g\<rparr>"

definition state_trend :: "county_year list \<Rightarrow> trend list" where
  "state_trend final_df = map (\<lambda>y. agg y (get_group final_df y)) (group_keys final_df)"

text \<open>
  \<^verbatim>\<open>Series.corr\<close> with the default Pearson method: the rows where either value is missing
  are left out; no row left gives NaN; otherwise the value is the off-diagonal entry of
  numpy's \<^verbatim>\<open>corrcoef\<close>, the covariance (with divisor \<open>n - 1\<close>) divided by the two standard
  deviations and clipped to \<open>[-1, 1]\<close>. One row makes the divisor zero, which gives NaN
  whatever the values; that branch is the same in float64. For two rows and more the
  definition gives the value of exact arithmetic, NaN when a variance is exactly zero:
  the float64 result is that value up to rounding, so it can differ from it in the last
  bits, depend on the order of the two divisions, and be a number where a variance that
  is zero in exact arithmetic is rounded to a nonzero one. Nothing below is stated about
  those bits.
\<close>

definition deviations :: "real list \<Rightarrow> real list" where
  "deviations xs = map (\<lambda>x. x - sum_list xs / real (length xs)) xs"

definition cov :: "real list \<Rightarrow> real list \<Rightarrow> real" where
  "cov xs ys =
     sum_list (map2 (\<lambda>dx dy. dx * dy) (deviations xs) (deviations ys)) / (real (length xs) - 1)"

definition corrcoef :: "real list \<Rightarrow> real list \<Rightarrow> real option" where
  "corrcoef xs ys =
     (if length xs < 2 then None
      else if cov xs xs = 0 \<or> cov ys ys = 0 then None
      else Some (max (- 1) (min 1 (cov xs ys / sqrt (cov xs xs) / sqrt (cov ys ys)))))"

definition corr ::
    "(county_year \<Rightarrow> real option) \<Rightarrow> (county_year \<Rightarrow> real option) \<Rightarrow> county_year list
      \<Rightarrow> real option" where
  "corr a b g =
     (let valid = filter (\<lambda>r. a r \<noteq> None \<and> b r \<noteq> None) g
      in if valid = [] then None
         else corrcoef (List.map_filter a valid) (List.map_filter b valid))"

text \<open>
  \<^verbatim>\<open>groupby("year").apply(...)\<close> gives a series with one value per group, which
  \<^verbatim>\<open>reset_index(name=...)\<close> turns into a two-column frame. Over a frame with no group,
  \<^verbatim>\<open>apply\<close> has no value to take the result's shape from and answers an empty frame, and
  the frame's \<^verbatim>\<open>reset_index\<close> has no \<^verbatim>\<open>name\<close> keyword: the call raises TypeError.
\<close>

definition reset_index_error :: exn where
  "reset_index_error = TypeError ''reset_index() got an unexpected keyword argument name''"

definition corr_by_year :: "county_year list \<Rightarrow> exn + (int \<times> real option) list" where
  "corr_by_year final_df =
     (if group_keys final_df = [] then Inl reset_index_error
      else Inr (map (\<lambda>y. (y, corr income gini (get_group final_df y))) (group_keys final_df)))"

section \<open>The module body\<close>

definition plot_points :: "(trend \<Rightarrow> real option) \<Rightarrow> trend list \<Rightarrow> (int \<times> real option) list" where
  "plot_points col st = map (\<lambda>t. (trend_year t, col t)) st"

definition report_failed :: "(int \<times> exn) list \<Rightarrow> event list" where
  "report_failed fy =
     (if fy = [] then []
      else Print_line (CHR 0x0A # ''=== Failed years ==='') #
           map (\<lambda>(y, msg). Print_failed_year y msg) fy)"

definition no_data_fetched :: exn where
  "no_data_fetched =
     RuntimeError ''No data fetched. Check network / years / API availability.''"

text \<open>
  A run of the script: what it wrote and showed, and the exception that ended it
  (\<open>None\<close> when it ran to its end). The guard looks at the list of fetched frames, not
  at their rows.
\<close>

definition run :: "request \<Rightarrow> coercion \<Rightarrow> event list \<times> exn option" where
  "run get parse =
     (let s = fetch_loop get parse YEARS init_accum
      in if all_dfs s = [] then
           (stdout s,
            Some no_data_fetched)
         else
           let final_df = concat (all_dfs s);
               st = state_trend final_df;
               out1 = stdout s @
                 [Print_line (CHR 0x0A # ''=== Maryland statewide (county-average) trend ===''),
                  Print_state_trend st]
           in case corr_by_year final_df of
                Inl e \<Rightarrow> (out1, Some e)
              | Inr cb \<Rightarrow>
                  (out1 @
                   [Print_line (CHR 0x0A # ''=== Correlation (county-level): income vs gini ===''),
                    Print_corr_by_year cb,
                    Print_overall_corr (corr income gini final_df),
                    Show_plot ''Maryland Avg County Median Household Income (ACS 5-year)''
                      (plot_points avg_income st),
                    Show_plot ''Maryland Avg County Gini Index (ACS 5-year)''
                      (plot_points avg_gini st)] @
                   report_failed (failed_years s),
                   None))"

section \<open>A parser and responses for concrete runs\<close>

text \<open>
  One instance of the parsing parameter, used where a run is evaluated: a JSON number
  is itself, and a string parses when it is a plain decimal numeral (an optional minus
  sign, digits, and optionally a point followed by digits). It is the library's reading
  on such cells only: it answers \<open>None\<close> for every other string, also for spellings the
  library does read as numbers (an exponent as in \<^verbatim>\<open>1e5\<close>, a leading plus sign or point,
  blanks around the numeral, \<^verbatim>\<open>inf\<close>). The runs evaluated below hold plain decimal
  numerals, null and \<^verbatim>\<open>N/A\<close> only.
\<close>

definition digit_of :: "char \<Rightarrow> nat option" where
  "digit_of c =
     map_of [(CHR ''0'', 0), (CHR ''1'', 1), (CHR ''2'', 2), (CHR ''3'', 3), (CHR ''4'', 4),
             (CHR ''5'', 5), (CHR ''6'', 6), (CHR ''7'', 7), (CHR ''8'', 8), (CHR ''9'', 9)] c"

fun digits_value :: "nat \<Rightarrow> string \<Rightarrow> nat option" where
  "digits_value acc [] = Some acc"
| "digits_value acc (c # cs) =
     (case digit_of c of None \<Rightarrow> None | Some d \<Rightarrow> digits_value (10 * acc + d) cs)"

definition unsigned_decimal :: "string \<Rightarrow> real option" where
  "unsigned_decimal s =
     (let ip = takeWhile (\<lambda>c. c \<noteq> CHR ''.'') s;
          rest = dropWhile (\<lambda>c. c \<noteq> CHR ''.'') s
      in if ip = [] then None
         else if rest = [] then map_option real (digits_value 0 ip)
         else if tl rest = [] then None
         else (case (digits_value 0 ip, digits_value 0 (tl rest)) of
                 (Some i, Some f) \<Rightarrow> Some (real i + real f / 10 ^ length (tl rest))
               | _ \<Rightarrow> None))"

definition decimal_numeric :: coercion where
  "decimal_numeric c =
     (case c of
        Null \<Rightarrow> None
      | Num x \<Rightarrow> Some x
      | Str s \<Rightarrow>
          (case s of
             [] \<Rightarrow> None
           | ch # cs \<Rightarrow>
               if ch = CHR ''-'' then map_option uminus (unsigned_decimal cs)
               else unsigned_decimal s))"

text \<open>
  A data row of a response, from its cells under \<^verbatim>\<open>NAME\<close>, the two variables,
  \<^verbatim>\<open>state\<close> and \<^verbatim>\<open>county\<close>; and the header the API sends.
\<close>

definition api_row :: "cell \<Rightarrow> cell \<Rightarrow> cell \<Rightarrow> cell \<Rightarrow> cell \<Rightarrow> string \<Rightarrow> cell" where
  "api_row nm inc gi st co =
     (\<lambda>c. if c = ''NAME'' then nm else if c = VAR_INCOME then inc
          else if c = VAR_GINI then gi else if c = ''state'' then st
          else if c = ''county'' then co else Null)"

definition api_columns :: "string list" where
  "api_columns = [''NAME'', VAR_INCOME, VAR_GINI, ''state'', ''county'']"

text \<open>
  Responses: three counties with incomes 50000, 60000, 70000 and Gini values 0.40, 0.42,
  0.44, as the API sends them (strings); rows whose variables do not parse; a row with a
  null name.
\<close>

definition three_counties :: dataframe where
  "three_counties =
     \<lparr>columns = api_columns,
      rows = [api_row (Str ''Allegany County, Maryland'') (Str ''50000'') (Str ''0.40'')
                (Str ''24'') (Str ''001''),
              api_row (Str ''Baltimore County, Maryland'') (Str ''60000'') (Str ''0.42'')
                (Str ''24'') (Str ''005''),
              api_row (Str ''Calvert County, Maryland'') (Str ''70000'') (Str ''0.44'')
                (Str ''24'') (Str ''009'')]\<rparr>"

definition unparseable_rows :: dataframe where
  "unparseable_rows =
     \<lparr>columns = api_columns,
      rows = [api_row (Str ''Allegany County, Maryland'') (Str ''N/A'') (Str ''0.40'')
                (Str ''24'') (Str ''001''),
              api_row (Str ''Baltimore County, Maryland'') (Str ''60000'') Null
                (Str ''24'') (Str ''005'')]\<rparr>"

definition nameless_row :: dataframe where
  "nameless_row =
     \<lparr>columns = api_columns,
      rows = [api_row Null (Str ''50000'') (Str ''0.40'') (Str ''24'') (Str ''001'')]\<rparr>"

definition mixed_rows :: dataframe where
  "mixed_rows =
     \<lparr>columns = api_columns,
      rows = [api_row (Str ''Allegany County, Maryland'') (Str ''50000'') (Str ''0.40'')
                (Str ''24'') (Str ''001''),
              api_row (Str ''Baltimore County, Maryland'') (Str ''N/A'') (Str ''0.42'')
                (Str ''24'') (Str ''005''),
              api_row (Str ''Calvert County, Maryland'') (Str ''70000'') Null
                (Str ''24'') (Str ''009'')]\<rparr>"

definition server_error :: exn where
  "server_error = RequestError ''500 Server Error''"

text \<open>
  Requests: one year answers and the others fail; one year fails and the others answer;
  every year fails; every year answers with rows that are all filtered out; the first
  year answers with the nameless row; the first year answers with rows that are all
  filtered out and the others with the three counties; every year answers with rows of
  which one survives the filter.
\<close>

definition scenario_A :: request where
  "scenario_A y = (if y = 2012 then Inr three_counties else Inl server_error)"

definition scenario_B :: request where
  "scenario_B y = (if y = 2016 then Inl server_error else Inr three_counties)"

definition scenario_C :: request where
  "scenario_C y = Inl server_error"

definition scenario_no_rows :: request where
  "scenario_no_rows y = Inr unparseable_rows"

definition scenario_nameless :: request where
  "scenario_nameless y = (if y = 2012 then Inr nameless_row else Inl server_error)"

definition scenario_one_empty :: request where
  "scenario_one_empty y = (if y = 2012 then Inr unparseable_rows else Inr three_counties)"

definition scenario_mixed :: request where
  "scenario_mixed y = Inr mixed_rows"

text \<open>The frame the fetcher returns for the three counties, in 2012.\<close>

definition frame_A :: "county_year list" where
  "frame_A =
       [\<lparr>NAME = Str ''Allegany County, Maryland'', state = Str ''24'', county = Str ''001'',
          year = 2012, income = Some 50000, gini = Some (2 / 5)\<rparr>,
        \<lparr>NAME = Str ''Baltimore County, Maryland'', state = Str ''24'', county = Str ''005'',
          year = 2012, income = Some 60000, gini = Some (21 / 50)\<rparr>,
        \<lparr>NAME = Str ''Calvert County, Maryland'', state = Str ''24'', county = Str ''009'',
          year = 2012, income = Some 70000, gini = Some (11 / 25)\<rparr>]"

text \<open>
  A county of 2014 on its own, and the frame the fetcher returns for the nameless row.
\<close>

definition lone_county :: county_year where
  "lone_county =
     \<lparr>NAME = Str ''Garrett County, Maryland'', state = Str ''24'', county = Str ''023'',
      year = 2014, income = Some 45000, gini = Some (43 / 100)\<rparr>"

definition nameless_frame :: "county_year list" where
  "nameless_frame =
     [\<lparr>NAME = Null, state = Str ''24'', county = Str ''001'', year = 2012,
       income = Some 50000, gini = Some (2 / 5)\<rparr>]"

section \<open>Notions used in the statements\<close>

text \<open>
  The outcomes of the fetches of a list of years, read off the fetcher alone: the
  frames of the years that succeeded, the failures of the years that raised, and the
  line the loop prints for each year.
\<close>

definition succeeded :: "request \<Rightarrow> coercion \<Rightarrow> int \<Rightarrow> bool" where
  "succeeded get parse y = (\<not> isl (fetch_acs_county_year get parse y))"

definition fetched_frames :: "request \<Rightarrow> coercion \<Rightarrow> int list \<Rightarrow> county_year list list" where
  "fetched_frames get parse ys =
     map (\<lambda>y. projr (fetch_acs_county_year get parse y))
       (filter (succeeded get parse) ys)"

definition failures :: "request \<Rightarrow> coercion \<Rightarrow> int list \<Rightarrow> (int \<times> exn) list" where
  "failures get parse ys =
     map (\<lambda>y. (y, projl (fetch_acs_county_year get parse y)))
       (filter (\<lambda>y. \<not> succeeded get parse y) ys)"

definition loop_line :: "request \<Rightarrow> coercion \<Rightarrow> int \<Rightarrow> event" where
  "loop_line get parse y =
     (case fetch_acs_county_year get parse y of
        Inr df_y \<Rightarrow> Print_ok y (length df_y)
      | Inl e \<Rightarrow> Print_fail y e)"

text \<open>
  The record the fetcher makes of a data row, and whether both variables of the row
  convert.
\<close>

definition row_record :: "coercion \<Rightarrow> int \<Rightarrow> (string \<Rightarrow> cell) \<Rightarrow> county_year" where
  "row_record parse yr r =
     \<lparr>NAME = r ''NAME'', state = r ''state'', county = r ''county'', year = yr,
      income = to_float parse (r VAR_INCOME), gini = to_float parse (r VAR_GINI)\<rparr>"

definition both_convert :: "coercion \<Rightarrow> (string \<Rightarrow> cell) \<Rightarrow> bool" where
  "both_convert parse r =
     (to_float parse (r VAR_INCOME) \<noteq> None \<and> to_float parse (r VAR_GINI) \<noteq> None)"

text \<open>The county count the aggregate table reports for a year, when it has a row for it.\<close>

definition n_counties_of :: "county_year list \<Rightarrow> int \<Rightarrow> nat option" where
  "n_counties_of final_df y =
     map_of (map (\<lambda>t. (trend_year t, n_counties t)) (state_trend final_df)) y"

text \<open>The events of a trace that show a chart, and those of the failed-year listing.\<close>

fun is_show :: "event \<Rightarrow> bool" where
  "is_show (Show_plot title points) = True"
| "is_show e = False"

fun is_failed_year :: "event \<Rightarrow> bool" where
  "is_failed_year (Print_failed_year y msg) = True"
| "is_failed_year e = False"

definition before_first_show :: "event list \<Rightarrow> event list" where
  "before_first_show evs = takeWhile (\<lambda>e. \<not> is_show e) evs"

definition from_first_show :: "event list \<Rightarrow> event list" where
  "from_first_show evs = dropWhile (\<lambda>e. \<not> is_show e) evs"

definition failed_listing :: "event list \<Rightarrow> event list" where
  "failed_listing evs = filter is_failed_year evs"

section \<open>The fetch loop, year by year\<close>

lemma fetch_step_all_dfs:
  "all_dfs (fetch_step g tn y s) = all_dfs s @ fetched_frames g tn [y]"
  by (cases "fetch_acs_county_year g tn y")
     (simp_all add: fetch_step_def fetched_frames_def succeeded_def)

lemma fetch_step_failed_years:
  "failed_years (fetch_step g tn y s) = failed_years s @ failures g tn [y]"
  by (cases "fetch_acs_county_year g tn y")
     (simp_all add: fetch_step_def failures_def succeeded_def)

lemma fetch_step_stdout:
  "stdout (fetch_step g tn y s) = stdout s @ [loop_line g tn y]"
  by (cases "fetch_acs_county_year g tn y")
     (simp_all add: fetch_step_def loop_line_def)

lemma fetched_frames_Cons:
  "fetched_frames g tn (y # ys) = fetched_frames g tn [y] @ fetched_frames g tn ys"
  by (simp add: fetched_frames_def)

lemma failures_Cons:
  "failures g tn (y # ys) = failures g tn [y] @ failures g tn ys"
  by (simp add: failures_def)

lemma fetch_loop_all_dfs:
  "all_dfs (fetch_loop g tn ys s) = all_dfs s @ fetched_frames g tn ys"
proof (induction ys arbitrary: s)
  case Nil
  show ?case by (simp add: fetched_frames_def)
next
  case (Cons y ys)
  show ?case
    using fetched_frames_Cons [of g tn y ys]
    by (simp add: Cons.IH fetch_step_all_dfs)
qed

lemma fetch_loop_failed_years:
  "failed_years (fetch_loop g tn ys s) = failed_years s @ failures g tn ys"
proof (induction ys arbitrary: s)
  case Nil
  show ?case by (simp add: failures_def)
next
  case (Cons y ys)
  show ?case
    using failures_Cons [of g tn y ys]
    by (simp add: Cons.IH fetch_step_failed_years)
qed

lemma fetch_loop_stdout:
  "stdout (fetch_loop g tn ys s) = stdout s @ map (loop_line g tn) ys"
  by (induction ys arbitrary: s) (simp_all add: fetch_step_stdout)

lemma accum_of_loop:
  "all_dfs (fetch_loop g tn YEARS init_accum) = fetched_frames g tn YEARS"
  "failed_years (fetch_loop g tn YEARS init_accum) = failures g tn YEARS"
  "stdout (fetch_loop g tn YEARS init_accum) = map (loop_line g tn) YEARS"
  by (simp_all add: fetch_loop_all_dfs fetch_loop_failed_years fetch_loop_stdout init_accum_def)

lemma fetched_frames_Nil_iff:
  "fetched_frames g tn ys = [] \<longleftrightarrow> (\<forall>y\<in>set ys. \<not> succeeded g tn y)"
  by (simp add: fetched_frames_def filter_empty_conv)

lemma length_frames_failures:
  "length (fetched_frames g tn ys) + length (failures g tn ys) = length ys"
  by (simp add: fetched_frames_def failures_def sum_length_filter_compl)

lemma loop_line_failed:
  "\<not> succeeded g tn y \<Longrightarrow>
     loop_line g tn y = Print_fail y (projl (fetch_acs_county_year g tn y))"
  by (cases "fetch_acs_county_year g tn y") (simp_all add: loop_line_def succeeded_def)

section \<open>The guard\<close>

lemma run_guard_raises:
  assumes "fetched_frames g tn YEARS = []"
  shows "run g tn = (map (loop_line g tn) YEARS, Some no_data_fetched)"
  using assms by (simp add: run_def accum_of_loop Let_def)

lemma run_guard_passes:
  assumes "fetched_frames g tn YEARS \<noteq> []"
  shows "Print_state_trend (state_trend (concat (fetched_frames g tn YEARS)))
           \<in> set (fst (run g tn))"
    and "snd (run g tn) \<noteq> Some no_data_fetched"
  using assms
  by (auto simp: run_def accum_of_loop Let_def corr_by_year_def no_data_fetched_def
           reset_index_error_def split: sum.splits)

section \<open>The trace of a run\<close>

lemma group_keys_Nil_iff: "group_keys df = [] \<longleftrightarrow> df = []"
proof -
  have "set (group_keys df) = year ` set df" by (simp add: group_keys_def)
  then show ?thesis by (metis image_is_empty set_empty)
qed

lemma run_outcome:
  "snd (run g tn) =
     (if fetched_frames g tn YEARS = [] then Some no_data_fetched
      else if concat (fetched_frames g tn YEARS) = [] then Some reset_index_error
      else None)"
  by (simp add: run_def accum_of_loop Let_def corr_by_year_def group_keys_Nil_iff
           split: sum.splits)

lemma run_completed:
  assumes "snd (run g tn) = None"
  shows "fst (run g tn) =
           map (loop_line g tn) YEARS @
           [Print_line (CHR 0x0A # ''=== Maryland statewide (county-average) trend ===''),
            Print_state_trend (state_trend (concat (fetched_frames g tn YEARS))),
            Print_line (CHR 0x0A # ''=== Correlation (county-level): income vs gini ===''),
            Print_corr_by_year (projr (corr_by_year (concat (fetched_frames g tn YEARS)))),
            Print_overall_corr (corr income gini (concat (fetched_frames g tn YEARS))),
            Show_plot ''Maryland Avg County Median Household Income (ACS 5-year)''
              (plot_points avg_income (state_trend (concat (fetched_frames g tn YEARS)))),
            Show_plot ''Maryland Avg County Gini Index (ACS 5-year)''
              (plot_points avg_gini (state_trend (concat (fetched_frames g tn YEARS))))] @
           report_failed (failures g tn YEARS)"
  using assms
  by (auto simp: run_def accum_of_loop Let_def split: sum.splits if_splits)

lemma loop_line_not_show: "\<not> is_show (loop_line g tn y)"
  by (cases "fetch_acs_county_year g tn y") (simp_all add: loop_line_def)

lemma loop_line_not_failed_year: "\<not> is_failed_year (loop_line g tn y)"
  by (cases "fetch_acs_county_year g tn y") (simp_all add: loop_line_def)

lemma report_failed_listing:
  "failed_listing (report_failed fy) = map (\<lambda>(y, msg). Print_failed_year y msg) fy"
  by (induction fy) (auto simp: report_failed_def failed_listing_def split: if_splits)

lemma failed_listing_loop: "failed_listing (map (loop_line g tn) ys) = []"
  by (induction ys) (simp_all add: failed_listing_def loop_line_not_failed_year)

lemma failed_listing_append: "failed_listing (xs @ ys) = failed_listing xs @ failed_listing ys"
  by (simp add: failed_listing_def)

lemma takeWhile_loop_lines:
  "takeWhile (\<lambda>e. \<not> is_show e) (map (loop_line g tn) ys @ rest)
     = map (loop_line g tn) ys @ takeWhile (\<lambda>e. \<not> is_show e) rest"
  by (induction ys) (simp_all add: loop_line_not_show)

lemma dropWhile_loop_lines:
  "dropWhile (\<lambda>e. \<not> is_show e) (map (loop_line g tn) ys @ rest)
     = dropWhile (\<lambda>e. \<not> is_show e) rest"
  by (induction ys) (simp_all add: loop_line_not_show)

section \<open>The correlation\<close>

lemma length_map_filter_valid:
  "length (List.map_filter a (filter (\<lambda>r. a r \<noteq> None \<and> b r \<noteq> None) g))
     = length (filter (\<lambda>r. a r \<noteq> None \<and> b r \<noteq> None) g)"
  by (induction g) (auto simp: map_filter_simps)

section \<open>Groups\<close>

lemma group_keys_set: "set (group_keys df) = year ` set df"
  by (simp add: group_keys_def)

lemma map_of_keyed:
  "k \<in> set ks \<Longrightarrow> map_of (map (\<lambda>k. (k, f k)) ks) k = Some (f k)"
  by (induction ks) auto

lemma corrcoef_short: "length xs < 2 \<Longrightarrow> corrcoef xs ys = None"
  by (simp add: corrcoef_def)

lemma corr_few_rows:
  assumes "length g < 2"
  shows "corr a b g = None"
proof -
  have "length (List.map_filter a (filter (\<lambda>r. a r \<noteq> None \<and> b r \<noteq> None) g))
          = length (filter (\<lambda>r. a r \<noteq> None \<and> b r \<noteq> None) g)"
    by (rule length_map_filter_valid)
  also have "\<dots> \<le> length g"
    by (rule length_filter_le)
  also note assms
  finally
  have "length (List.map_filter a (filter (\<lambda>r. a r \<noteq> None \<and> b r \<noteq> None) g)) < 2" .
  then show ?thesis
    unfolding corr_def Let_def by (simp only: corrcoef_short if_cancel)
qed

text \<open>
  What \<^verbatim>\<open>("NAME", "count")\<close> computes for a year of the table: the number of its rows
  whose \<^verbatim>\<open>NAME\<close> is not null.
\<close>

lemma n_counties_of_year:
  assumes "y \<in> year ` set final_df"
  shows "n_counties_of final_df y
           = Some (length (filter (\<lambda>r. NAME r \<noteq> Null) (get_group final_df y)))
       \<and> ((\<forall>r\<in>set (get_group final_df y). NAME r \<noteq> Null) \<longrightarrow>
            n_counties_of final_df y = Some (length (get_group final_df y)))"
proof -
  from assms have key: "y \<in> set (group_keys final_df)"
    by (simp add: group_keys_set)
  have "n_counties_of final_df y
      = map_of (map (\<lambda>k. (k, count NAME (get_group final_df k))) (group_keys final_df)) y"
    by (simp add: n_counties_of_def state_trend_def agg_def o_def)
  also from key have "\<dots> = Some (count NAME (get_group final_df y))"
    by (rule map_of_keyed)
  finally have n: "n_counties_of final_df y = Some (count NAME (get_group final_df y))" .
  then show ?thesis
    by (auto simp: count_def)
qed

section \<open>Evaluating the concrete runs\<close>

text \<open>
  The two ways the conversion of a column can raise: the default \<^verbatim>\<open>errors="raise"\<close> on
  a cell that does not parse, which is not the mode the fetcher uses, and a repeated
  variable label, which makes the argument a frame.
\<close>

lemma to_numeric_raise_mode:
  assumes "c \<in> set col" and "c \<noteq> Null" and "parse c = None"
  shows "to_numeric Errors_raise parse (Series col) = Inl (ValueError ''Unable to parse string'')"
  using assms by (auto simp: to_numeric_def list_ex_iff)

lemma fetch_repeated_label:
  assumes "g y = Inr df" and "VAR_INCOME \<in> set (columns df)"
    and "count_list (columns df) VAR_INCOME \<noteq> 1"
  shows "fetch_acs_county_year g parse y =
           Inl (TypeError ''arg must be a list, tuple, 1-d array, or Series'')"
  using assms by (simp add: fetch_acs_county_year_def getitem_def to_numeric_def)

lemma count_list_distinct:
  "distinct xs \<Longrightarrow> x \<in> set xs \<Longrightarrow> count_list xs x = 1"
  by (induction xs) auto

lemma assign_columns_rows:
  "assign_columns yr rs (map f rs) (map g rs) =
     map (\<lambda>r. \<lparr>NAME = r ''NAME'', state = r ''state'', county = r ''county'', year = yr,
                income = f r, gini = g r\<rparr>) rs"
  by (induction rs) (simp_all add: assign_columns_def)

lemma fetch_unfold:
  "fetch_acs_county_year g parse y =
     (case g y of
        Inl e \<Rightarrow> Inl e
      | Inr df \<Rightarrow>
          if VAR_INCOME \<notin> set (columns df) then Inl (KeyError [VAR_INCOME])
          else if count_list (columns df) VAR_INCOME \<noteq> 1
            then Inl (TypeError ''arg must be a list, tuple, 1-d array, or Series'')
          else if VAR_GINI \<notin> set (columns df) then Inl (KeyError [VAR_GINI])
          else if count_list (columns df) VAR_GINI \<noteq> 1
            then Inl (TypeError ''arg must be a list, tuple, 1-d array, or Series'')
          else if missing_columns df \<noteq> [] then Inl (KeyError (missing_columns df))
          else Inr (dropna (map (row_record parse y) (rows df))))"
proof (cases "g y")
  case (Inl e)
  then show ?thesis by (simp add: fetch_acs_county_year_def)
next
  case (Inr df)
  have rows_eq: "assign_columns y (rows df)
          (map (to_float parse \<circ> (\<lambda>r. r VAR_INCOME)) (rows df))
          (map (to_float parse \<circ> (\<lambda>r. r VAR_GINI)) (rows df))
        = map (row_record parse y) (rows df)"
    using assign_columns_rows
      [of y "rows df" "to_float parse \<circ> (\<lambda>r. r VAR_INCOME)"
          "to_float parse \<circ> (\<lambda>r. r VAR_GINI)"]
    by (simp add: row_record_def)
  from Inr show ?thesis
    by (simp add: fetch_acs_county_year_def getitem_def to_numeric_def rows_eq)
qed

lemmas fetch_eval =
  fetch_unfold api_columns_def api_row_def VAR_INCOME_def VAR_GINI_def
  missing_columns_def dropna_def notna_both_def row_record_def to_float_def
  decimal_numeric_def unsigned_decimal_def digit_of_def

lemma fetch_scenario_C: "fetch_acs_county_year scenario_C tn y = Inl server_error"
  by (simp add: scenario_C_def fetch_acs_county_year_def)

lemma fetch_scenario_no_rows: "fetch_acs_county_year scenario_no_rows decimal_numeric y = Inr []"
  by (simp add: scenario_no_rows_def unparseable_rows_def fetch_eval)

lemma fetch_scenario_B:
  "fetch_acs_county_year scenario_B decimal_numeric y =
     (if y = 2016 then Inl server_error
      else Inr
       [\<lparr>NAME = Str ''Allegany County, Maryland'', state = Str ''24'', county = Str ''001'',
          year = y, income = Some 50000, gini = Some (2 / 5)\<rparr>,
        \<lparr>NAME = Str ''Baltimore County, Maryland'', state = Str ''24'', county = Str ''005'',
          year = y, income = Some 60000, gini = Some (21 / 50)\<rparr>,
        \<lparr>NAME = Str ''Calvert County, Maryland'', state = Str ''24'', county = Str ''009'',
          year = y, income = Some 70000, gini = Some (11 / 25)\<rparr>])"
  by (simp add: scenario_B_def three_counties_def fetch_eval)

lemma scenario_B_completes: "snd (run scenario_B decimal_numeric) = None"
  unfolding run_outcome
  by (simp add: fetched_frames_def succeeded_def fetch_scenario_B YEARS_def)

lemma scenario_B_failures: "failures scenario_B decimal_numeric YEARS = [(2016, server_error)]"
  by (simp add: failures_def succeeded_def fetch_scenario_B YEARS_def)

lemma fetch_scenario_mixed:
  "fetch_acs_county_year scenario_mixed decimal_numeric y =
       Inr [\<lparr>NAME = Str ''Allegany County, Maryland'', state = Str ''24'', county = Str ''001'',
             year = y, income = Some 50000, gini = Some (2 / 5)\<rparr>]"
  by (simp add: scenario_mixed_def mixed_rows_def fetch_eval)

lemma fetch_scenario_A:
  "fetch_acs_county_year scenario_A decimal_numeric y =
     (if y = 2012 then Inr frame_A else Inl server_error)"
  by (simp add: scenario_A_def three_counties_def fetch_eval frame_A_def)

lemma group_keys_A: "group_keys frame_A = [2012]"
  by (simp add: group_keys_def frame_A_def)

lemma get_group_A: "get_group frame_A 2012 = frame_A"
  by (simp add: get_group_def frame_A_def)

lemma incomes_A: "notna_values income frame_A = [50000, 60000, 70000]"
  by (simp add: notna_values_def frame_A_def map_filter_simps)

lemma ginis_A: "notna_values gini frame_A = [2 / 5, 21 / 50, 11 / 25]"
  by (simp add: notna_values_def frame_A_def map_filter_simps)

lemma state_trend_A:
  "state_trend frame_A =
     [\<lparr>trend_year = 2012, avg_income = Some 60000, median_income = Some 60000,
       avg_gini = Some (21 / 50), median_gini = Some (21 / 50), n_counties = 3\<rparr>]"
  unfolding state_trend_def group_keys_A
  by (simp add: get_group_A agg_def incomes_A ginis_A mean_def median_def)
     (simp add: count_def frame_A_def)

lemma sqrt_A1: "sqrt 100000000 = 10000"
  by (rule real_sqrt_unique) simp_all

lemma sqrt_A2: "sqrt (1 / 2500) = 1 / 50"
  by (rule real_sqrt_unique) (simp_all add: power2_eq_square)

lemma corrcoef_A: "corrcoef [50000, 60000, 70000] [2 / 5, 21 / 50, 11 / 25] = Some 1"
proof -
  have xx: "cov [50000, 60000, 70000] [50000, 60000, 70000] = 100000000"
    by (simp add: cov_def deviations_def)
  have yy: "cov [2 / 5, 21 / 50, 11 / 25] [2 / 5, 21 / 50, 11 / 25] = 1 / 2500"
    by (simp add: cov_def deviations_def)
  have xy: "cov [50000, 60000, 70000] [2 / 5, 21 / 50, 11 / 25] = 200"
    by (simp add: cov_def deviations_def)
  show ?thesis
    unfolding corrcoef_def xx yy xy sqrt_A1 sqrt_A2 by simp
qed

lemma corr_A: "corr income gini frame_A = Some 1"
proof -
  have v: "filter (\<lambda>r. income r \<noteq> None \<and> gini r \<noteq> None) frame_A = frame_A"
    by (simp add: frame_A_def del: not_None_eq)
  have "frame_A \<noteq> []" by (simp add: frame_A_def)
  then show ?thesis
    unfolding corr_def v Let_def
    using corrcoef_A incomes_A ginis_A by (simp add: notna_values_def)
qed

lemma fetch_scenario_one_empty:
  "fetch_acs_county_year scenario_one_empty decimal_numeric y =
     (if y = 2012 then Inr []
      else Inr
       [\<lparr>NAME = Str ''Allegany County, Maryland'', state = Str ''24'', county = Str ''001'',
          year = y, income = Some 50000, gini = Some (2 / 5)\<rparr>,
        \<lparr>NAME = Str ''Baltimore County, Maryland'', state = Str ''24'', county = Str ''005'',
          year = y, income = Some 60000, gini = Some (21 / 50)\<rparr>,
        \<lparr>NAME = Str ''Calvert County, Maryland'', state = Str ''24'', county = Str ''009'',
          year = y, income = Some 70000, gini = Some (11 / 25)\<rparr>])"
  by (simp add: scenario_one_empty_def unparseable_rows_def three_counties_def fetch_eval)

lemma years_of_one_empty:
  "map year (concat (fetched_frames scenario_one_empty decimal_numeric YEARS)) =
     [2014, 2014, 2014, 2016, 2016, 2016, 2018, 2018, 2018, 2022, 2022, 2022]"
  by (simp add: fetched_frames_def succeeded_def fetch_scenario_one_empty YEARS_def)

lemma corr_by_year_keys:
  "final_df \<noteq> [] \<Longrightarrow>
     \<not> isl (corr_by_year final_df) \<and> map fst (projr (corr_by_year final_df)) = group_keys final_df"
  by (simp add: corr_by_year_def group_keys_Nil_iff o_def)

section \<open>The claims\<close>

text \<open>
  C1, as stated: whenever the combined table has no rows, the run raises the guard's
  error before the aggregator runs. It fails when every year answers with rows that are
  all filtered out: the combined table is empty, yet the guard passes (the list of frames
  is not empty) and the aggregate table, empty, is computed and printed.
\<close>

theorem C1_counterexample:
  "concat (all_dfs (fetch_loop scenario_no_rows decimal_numeric YEARS init_accum)) = []
   \<and> snd (run scenario_no_rows decimal_numeric) \<noteq> Some no_data_fetched
   \<and> Print_state_trend [] \<in> set (fst (run scenario_no_rows decimal_numeric))"
proof -
  have frames: "fetched_frames scenario_no_rows decimal_numeric YEARS = [[], [], [], [], []]"
    by (simp add: fetched_frames_def succeeded_def fetch_scenario_no_rows YEARS_def)
  then have ne: "fetched_frames scenario_no_rows decimal_numeric YEARS \<noteq> []" by simp
  have "state_trend [] = []" by (simp add: state_trend_def group_keys_def)
  with run_guard_passes [OF ne] frames show ?thesis
    by (simp add: accum_of_loop)
qed

text \<open>
  C1, amended. The guard looks at the list of fetched frames: it raises exactly when the
  fetch of every configured year failed, and then the run has written only the \<^verbatim>\<open>[FAIL]\<close>
  lines. When at least one fetch returned a frame the guard does not raise, also when the
  combined table has no rows, and the aggregate table of the combined table is computed
  and printed.
\<close>

theorem C1_guard_on_frames:
  "(all_dfs (fetch_loop g tn YEARS init_accum) = []
      \<longleftrightarrow> (\<forall>y\<in>set YEARS. isl (fetch_acs_county_year g tn y)))
   \<and> (all_dfs (fetch_loop g tn YEARS init_accum) = [] \<longrightarrow>
        run g tn = (map (\<lambda>y. Print_fail y (projl (fetch_acs_county_year g tn y))) YEARS,
                    Some no_data_fetched))
   \<and> (all_dfs (fetch_loop g tn YEARS init_accum) \<noteq> [] \<longrightarrow>
        snd (run g tn) \<noteq> Some no_data_fetched
        \<and> Print_state_trend (state_trend (concat (all_dfs (fetch_loop g tn YEARS init_accum))))
             \<in> set (fst (run g tn)))"
proof -
  have iff: "all_dfs (fetch_loop g tn YEARS init_accum) = []
      \<longleftrightarrow> (\<forall>y\<in>set YEARS. isl (fetch_acs_county_year g tn y))"
    by (simp add: accum_of_loop fetched_frames_Nil_iff succeeded_def)
  have raised: "run g tn = (map (\<lambda>y. Print_fail y (projl (fetch_acs_county_year g tn y))) YEARS,
                    Some no_data_fetched)"
    if "all_dfs (fetch_loop g tn YEARS init_accum) = []"
  proof -
    from that have e: "fetched_frames g tn YEARS = []" by (simp add: accum_of_loop)
    then have "\<forall>y\<in>set YEARS. \<not> succeeded g tn y" by (simp add: fetched_frames_Nil_iff)
    then have "map (loop_line g tn) YEARS
          = map (\<lambda>y. Print_fail y (projl (fetch_acs_county_year g tn y))) YEARS"
      by (simp add: loop_line_failed)
    with run_guard_raises [OF e] show ?thesis by simp
  qed
  have passed: "snd (run g tn) \<noteq> Some no_data_fetched
        \<and> Print_state_trend (state_trend (concat (all_dfs (fetch_loop g tn YEARS init_accum))))
             \<in> set (fst (run g tn))"
    if "all_dfs (fetch_loop g tn YEARS init_accum) \<noteq> []"
  proof -
    from that have ne: "fetched_frames g tn YEARS \<noteq> []" by (simp add: accum_of_loop)
    from run_guard_passes [OF ne] show ?thesis by (simp add: accum_of_loop)
  qed
  from iff raised passed show ?thesis by blast
qed

theorem C1_guard_on_frames_witness:
  "all_dfs (fetch_loop scenario_C decimal_numeric YEARS init_accum) = []
   \<and> snd (run scenario_C decimal_numeric) = Some no_data_fetched
   \<and> all_dfs (fetch_loop scenario_no_rows decimal_numeric YEARS init_accum) \<noteq> []
   \<and> snd (run scenario_no_rows decimal_numeric) \<noteq> Some no_data_fetched"
proof -
  have c: "all_dfs (fetch_loop scenario_C decimal_numeric YEARS init_accum) = []"
    unfolding accum_of_loop by (simp add: fetched_frames_def succeeded_def fetch_scenario_C)
  have n: "all_dfs (fetch_loop scenario_no_rows decimal_numeric YEARS init_accum) \<noteq> []"
    unfolding accum_of_loop
    by (simp add: fetched_frames_def succeeded_def fetch_scenario_no_rows YEARS_def)
  from C1_guard_on_frames [of scenario_C decimal_numeric]
       C1_guard_on_frames [of scenario_no_rows decimal_numeric] c n
  show ?thesis by simp
qed

text \<open>
  C2. The county count of a year is to be the number of rows of the combined table of
  that year. At a response with one data row whose \<^verbatim>\<open>NAME\<close> is null the script does not
  keep to it: the fetcher returns the row (only the two numeric columns are filtered on),
  the loop prints \<^verbatim>\<open>rows=1\<close>, the combined table has one row of 2012 and the means are
  taken over it, and the count reported for 2012 is 0.
\<close>

theorem C2_null_name_not_counted:
  "fetch_acs_county_year scenario_nameless decimal_numeric 2012 = Inr nameless_frame
   \<and> concat (all_dfs (fetch_loop scenario_nameless decimal_numeric YEARS init_accum))
        = nameless_frame
   \<and> stdout (fetch_loop scenario_nameless decimal_numeric YEARS init_accum) ! 0
        = Print_ok 2012 1
   \<and> length (get_group nameless_frame 2012) = 1
   \<and> state_trend nameless_frame =
        [\<lparr>trend_year = 2012, avg_income = Some 50000, median_income = Some 50000,
          avg_gini = Some (2 / 5), median_gini = Some (2 / 5), n_counties = 0\<rparr>]
   \<and> n_counties_of nameless_frame 2012 = Some 0"
proof -
  have f: "fetch_acs_county_year scenario_nameless decimal_numeric y =
             (if y = 2012 then Inr nameless_frame else Inl server_error)" for y
    by (simp add: scenario_nameless_def nameless_row_def fetch_eval nameless_frame_def)
  have c: "concat (all_dfs (fetch_loop scenario_nameless decimal_numeric YEARS init_accum))
        = nameless_frame"
    unfolding accum_of_loop by (simp add: fetched_frames_def succeeded_def f YEARS_def)
  have p: "stdout (fetch_loop scenario_nameless decimal_numeric YEARS init_accum) ! 0
        = Print_ok 2012 1"
    unfolding accum_of_loop by (simp add: loop_line_def f YEARS_def nameless_frame_def)
  have g: "get_group nameless_frame 2012 = nameless_frame"
    by (simp add: get_group_def nameless_frame_def)
  have l: "length nameless_frame = 1" by (simp add: nameless_frame_def)
  have k: "group_keys nameless_frame = [2012]"
    by (simp add: group_keys_def nameless_frame_def)
  have i: "notna_values income nameless_frame = [50000]"
    by (simp add: notna_values_def nameless_frame_def map_filter_simps)
  have gi: "notna_values gini nameless_frame = [2 / 5]"
    by (simp add: notna_values_def nameless_frame_def map_filter_simps)
  have n: "count NAME nameless_frame = 0"
    by (simp add: count_def nameless_frame_def)
  have st: "state_trend nameless_frame =
        [\<lparr>trend_year = 2012, avg_income = Some 50000, median_income = Some 50000,
          avg_gini = Some (2 / 5), median_gini = Some (2 / 5), n_counties = 0\<rparr>]"
    unfolding state_trend_def k
    by (simp add: g agg_def i gi n mean_def median_def)
  have nc: "n_counties_of nameless_frame 2012 = Some 0"
    unfolding n_counties_of_def st by simp
  from f [of 2012] c p g l st nc show ?thesis by simp
qed

text \<open>
  C3, as stated: all of the reporter's output, the failed-year listing included, is
  written before the charts are shown. It fails when one year fails and four succeed:
  the run ends normally, the two charts are followed by the heading and the line of the
  failed year, which is the last event, and nothing of the listing precedes the first
  chart.
\<close>

theorem C3_counterexample:
  "snd (run scenario_B decimal_numeric) = None
   \<and> map is_show (from_first_show (fst (run scenario_B decimal_numeric)))
        = [True, True, False, False]
   \<and> last (fst (run scenario_B decimal_numeric)) = Print_failed_year 2016 server_error
   \<and> failed_listing (before_first_show (fst (run scenario_B decimal_numeric))) = []"
proof -
  note tr = run_completed [OF scenario_B_completes]
  have a: "map is_show (from_first_show (fst (run scenario_B decimal_numeric)))
        = [True, True, False, False]"
    unfolding from_first_show_def tr dropWhile_loop_lines scenario_B_failures
    by (simp add: report_failed_def)
  have b: "last (fst (run scenario_B decimal_numeric)) = Print_failed_year 2016 server_error"
    unfolding tr scenario_B_failures by (simp add: report_failed_def)
  have c: "failed_listing (before_first_show (fst (run scenario_B decimal_numeric))) = []"
    unfolding before_first_show_def tr takeWhile_loop_lines failed_listing_append
      failed_listing_loop
    by (simp add: failed_listing_def)
  from scenario_B_completes a b c show ?thesis by simp
qed

text \<open>
  C3, amended. In every run that ends normally, what precedes the first chart is the
  lines of the fetch loop, the aggregate table, the correlation table and the overall
  correlation; the two charts follow, and the failed-year listing (one line per failed
  year, when there is any) is written after the second chart.
\<close>

theorem C3_listing_after_charts:
  assumes "snd (run g tn) = None"
  shows "before_first_show (fst (run g tn)) =
           stdout (fetch_loop g tn YEARS init_accum) @
           [Print_line (CHR 0x0A # ''=== Maryland statewide (county-average) trend ===''),
            Print_state_trend (state_trend (concat (all_dfs (fetch_loop g tn YEARS init_accum)))),
            Print_line (CHR 0x0A # ''=== Correlation (county-level): income vs gini ===''),
            Print_corr_by_year
              (projr (corr_by_year (concat (all_dfs (fetch_loop g tn YEARS init_accum))))),
            Print_overall_corr
              (corr income gini (concat (all_dfs (fetch_loop g tn YEARS init_accum))))]
       \<and> from_first_show (fst (run g tn)) =
           [Show_plot ''Maryland Avg County Median Household Income (ACS 5-year)''
              (plot_points avg_income
                 (state_trend (concat (all_dfs (fetch_loop g tn YEARS init_accum))))),
            Show_plot ''Maryland Avg County Gini Index (ACS 5-year)''
              (plot_points avg_gini
                 (state_trend (concat (all_dfs (fetch_loop g tn YEARS init_accum)))))] @
           report_failed (failed_years (fetch_loop g tn YEARS init_accum))
       \<and> failed_listing (before_first_show (fst (run g tn))) = []
       \<and> failed_listing (from_first_show (fst (run g tn))) =
           map (\<lambda>(y, msg). Print_failed_year y msg)
             (failed_years (fetch_loop g tn YEARS init_accum))"
proof -
  note tr = run_completed [OF assms]
  have b: "before_first_show (fst (run g tn)) =
           map (loop_line g tn) YEARS @
           [Print_line (CHR 0x0A # ''=== Maryland statewide (county-average) trend ===''),
            Print_state_trend (state_trend (concat (fetched_frames g tn YEARS))),
            Print_line (CHR 0x0A # ''=== Correlation (county-level): income vs gini ===''),
            Print_corr_by_year (projr (corr_by_year (concat (fetched_frames g tn YEARS)))),
            Print_overall_corr (corr income gini (concat (fetched_frames g tn YEARS)))]"
    unfolding before_first_show_def tr takeWhile_loop_lines by simp
  have a: "from_first_show (fst (run g tn)) =
           [Show_plot ''Maryland Avg County Median Household Income (ACS 5-year)''
              (plot_points avg_income (state_trend (concat (fetched_frames g tn YEARS)))),
            Show_plot ''Maryland Avg County Gini Index (ACS 5-year)''
              (plot_points avg_gini (state_trend (concat (fetched_frames g tn YEARS))))] @
           report_failed (failures g tn YEARS)"
    unfolding from_first_show_def tr dropWhile_loop_lines by simp
  have l1: "failed_listing (before_first_show (fst (run g tn))) = []"
    unfolding b failed_listing_append failed_listing_loop by (simp add: failed_listing_def)
  have l2: "failed_listing (from_first_show (fst (run g tn))) =
           map (\<lambda>(y, msg). Print_failed_year y msg) (failures g tn YEARS)"
    unfolding a failed_listing_append report_failed_listing by (simp add: failed_listing_def)
  from a b l1 l2 show ?thesis by (simp add: accum_of_loop)
qed

theorem C3_listing_after_charts_witness:
  "snd (run scenario_B decimal_numeric) = None
   \<and> failed_listing (from_first_show (fst (run scenario_B decimal_numeric)))
        = [Print_failed_year 2016 server_error]
   \<and> failed_listing (before_first_show (fst (run scenario_B decimal_numeric))) = []"
proof -
  from C3_listing_after_charts [OF scenario_B_completes]
  have "failed_listing (from_first_show (fst (run scenario_B decimal_numeric)))
          = map (\<lambda>(y, msg). Print_failed_year y msg)
              (failed_years (fetch_loop scenario_B decimal_numeric YEARS init_accum))"
    and "failed_listing (before_first_show (fst (run scenario_B decimal_numeric))) = []"
    by blast+
  with scenario_B_completes show ?thesis
    by (simp add: accum_of_loop scenario_B_failures)
qed

text \<open>
  C4. If the fetch of every configured year fails, the run ends with the RuntimeError
  of the guard, and all it has written by then is the \<^verbatim>\<open>[FAIL]\<close> line of each year, in
  the order of the years: no aggregate table, no correlation, no chart and no failed-year
  listing.
\<close>

theorem C4_all_years_fail:
  assumes "\<forall>y\<in>set YEARS. isl (fetch_acs_county_year g tn y)"
  shows "run g tn =
           (map (\<lambda>y. Print_fail y (projl (fetch_acs_county_year g tn y))) YEARS,
            Some no_data_fetched)"
proof -
  from assms have none: "\<forall>y\<in>set YEARS. \<not> succeeded g tn y"
    by (simp add: succeeded_def)
  then have "fetched_frames g tn YEARS = []"
    by (simp add: fetched_frames_Nil_iff)
  then have "run g tn = (map (loop_line g tn) YEARS, Some no_data_fetched)"
    by (rule run_guard_raises)
  moreover from none
  have "map (loop_line g tn) YEARS
          = map (\<lambda>y. Print_fail y (projl (fetch_acs_county_year g tn y))) YEARS"
    by (simp add: loop_line_failed)
  ultimately show ?thesis by simp
qed

theorem C4_all_years_fail_witness:
  "run scenario_C decimal_numeric =
     ([Print_fail 2012 server_error, Print_fail 2014 server_error,
       Print_fail 2016 server_error, Print_fail 2018 server_error,
       Print_fail 2022 server_error],
      Some no_data_fetched)"
  using C4_all_years_fail [of scenario_C decimal_numeric]
  by (simp add: fetch_scenario_C YEARS_def)

text \<open>
  C5. After the fetch loop every configured year is in exactly one accumulator: either
  its fetch returned a frame (of zero or more rows), that frame is in \<^verbatim>\<open>all_dfs\<close> and the
  year is not in \<^verbatim>\<open>failed_years\<close>; or its fetch raised, and the year is in
  \<^verbatim>\<open>failed_years\<close> with that exception. The list of frames has one frame per year that
  succeeded, and the two lists together have one entry per configured year.
\<close>

theorem C5_every_year_accounted:
  assumes "y \<in> set YEARS"
  shows "((\<exists>df_y. fetch_acs_county_year g tn y = Inr df_y
              \<and> df_y \<in> set (all_dfs (fetch_loop g tn YEARS init_accum))
              \<and> y \<notin> fst ` set (failed_years (fetch_loop g tn YEARS init_accum)))
         \<or> (\<exists>e. fetch_acs_county_year g tn y = Inl e
              \<and> (y, e) \<in> set (failed_years (fetch_loop g tn YEARS init_accum))))
       \<and> length (all_dfs (fetch_loop g tn YEARS init_accum))
            = length (filter (succeeded g tn) YEARS)
       \<and> length (all_dfs (fetch_loop g tn YEARS init_accum))
            + length (failed_years (fetch_loop g tn YEARS init_accum)) = length YEARS"
proof -
  have counts: "length (all_dfs (fetch_loop g tn YEARS init_accum))
                  = length (filter (succeeded g tn) YEARS)"
    by (simp add: accum_of_loop fetched_frames_def)
  have total: "length (all_dfs (fetch_loop g tn YEARS init_accum))
          + length (failed_years (fetch_loop g tn YEARS init_accum)) = length YEARS"
    by (simp add: accum_of_loop length_frames_failures)
  have one: "(\<exists>df_y. fetch_acs_county_year g tn y = Inr df_y
              \<and> df_y \<in> set (all_dfs (fetch_loop g tn YEARS init_accum))
              \<and> y \<notin> fst ` set (failed_years (fetch_loop g tn YEARS init_accum)))
         \<or> (\<exists>e. fetch_acs_county_year g tn y = Inl e
              \<and> (y, e) \<in> set (failed_years (fetch_loop g tn YEARS init_accum)))"
  proof (cases "fetch_acs_county_year g tn y")
    case (Inl e)
    then have "\<not> succeeded g tn y" by (simp add: succeeded_def)
    with assms Inl have "(y, e) \<in> set (failures g tn YEARS)"
      by (force simp: failures_def)
    with Inl show ?thesis by (simp add: accum_of_loop)
  next
    case (Inr df_y)
    then have ok: "succeeded g tn y" by (simp add: succeeded_def)
    with assms Inr have "df_y \<in> set (fetched_frames g tn YEARS)"
      by (force simp: fetched_frames_def)
    moreover from ok have "y \<notin> fst ` set (failures g tn YEARS)"
      by (force simp: failures_def)
    ultimately show ?thesis using Inr by (simp add: accum_of_loop)
  qed
  from one counts total show ?thesis by blast
qed

theorem C5_every_year_accounted_witness:
  "2016 \<in> set YEARS
   \<and> fetch_acs_county_year scenario_B decimal_numeric 2016 = Inl server_error
   \<and> (2016, server_error)
        \<in> set (failed_years (fetch_loop scenario_B decimal_numeric YEARS init_accum))
   \<and> length (all_dfs (fetch_loop scenario_B decimal_numeric YEARS init_accum)) = 4
   \<and> length (failed_years (fetch_loop scenario_B decimal_numeric YEARS init_accum)) = 1"
proof -
  have y: "2016 \<in> set YEARS" by (simp add: YEARS_def)
  have n: "length (filter (succeeded scenario_B decimal_numeric) YEARS) = 4"
    by (simp add: succeeded_def fetch_scenario_B YEARS_def)
  have f: "fetch_acs_county_year scenario_B decimal_numeric 2016 = Inl server_error"
    by (simp add: fetch_scenario_B)
  have l: "length YEARS = 5" by (simp add: YEARS_def)
  from C5_every_year_accounted [OF y, of scenario_B decimal_numeric] y n f l
  show ?thesis by auto
qed

text \<open>
  C6, as stated: every year whose row set in the combined table has fewer than two rows
  has the per-year correlation NaN. It fails for a year whose fetch succeeded with zero
  rows while other years have rows: the year has no row in the combined table, hence is
  no group, and the correlation table has no entry for it (its years are the four others).
\<close>

theorem C6_counterexample:
  "fetch_acs_county_year scenario_one_empty decimal_numeric 2012 = Inr []
   \<and> get_group (concat (all_dfs (fetch_loop scenario_one_empty decimal_numeric YEARS init_accum)))
        2012 = []
   \<and> \<not> isl (corr_by_year
              (concat (all_dfs (fetch_loop scenario_one_empty decimal_numeric YEARS init_accum))))
   \<and> map fst (projr (corr_by_year
        (concat (all_dfs (fetch_loop scenario_one_empty decimal_numeric YEARS init_accum)))))
       = [2014, 2016, 2018, 2022]"
proof -
  have f: "fetch_acs_county_year scenario_one_empty decimal_numeric 2012 = Inr []"
    by (simp add: fetch_scenario_one_empty)
  have ne: "concat (fetched_frames scenario_one_empty decimal_numeric YEARS) \<noteq> []"
  proof
    assume e: "concat (fetched_frames scenario_one_empty decimal_numeric YEARS) = []"
    show False using years_of_one_empty unfolding e by simp
  qed
  have "2012 \<notin> set (map year (concat (fetched_frames scenario_one_empty decimal_numeric YEARS)))"
    unfolding years_of_one_empty by simp
  then have g: "get_group (concat (fetched_frames scenario_one_empty decimal_numeric YEARS)) 2012 = []"
    by (auto simp: get_group_def filter_empty_conv)
  have k: "group_keys (concat (fetched_frames scenario_one_empty decimal_numeric YEARS))
             = [2014, 2016, 2018, 2022]"
    unfolding group_keys_def years_of_one_empty by simp
  from f g corr_by_year_keys [OF ne] k show ?thesis
    by (simp add: accum_of_loop)
qed

text \<open>
  C6, amended. For every year that has exactly one row in the combined table, the
  per-year correlation is computed without an error and the value reported for that year
  is NaN. A year with no row in a combined table that has rows gets no entry in the
  correlation table.
\<close>

theorem C6_single_row_nan:
  "(y \<in> year ` set final_df \<and> length (get_group final_df y) < 2 \<longrightarrow>
      (\<exists>cb. corr_by_year final_df = Inr cb \<and> map_of cb y = Some None))
   \<and> (y \<notin> year ` set final_df \<and> final_df \<noteq> [] \<longrightarrow>
      (\<exists>cb. corr_by_year final_df = Inr cb \<and> map_of cb y = None))"
proof -
  have shape: "corr_by_year final_df =
      Inr (map (\<lambda>k. (k, corr income gini (get_group final_df k))) (group_keys final_df))"
    if "final_df \<noteq> []"
    using that by (simp add: corr_by_year_def group_keys_Nil_iff)
  have one: "\<exists>cb. corr_by_year final_df = Inr cb \<and> map_of cb y = Some None"
    if "y \<in> year ` set final_df" and "length (get_group final_df y) < 2"
  proof -
    from that(1) have key: "y \<in> set (group_keys final_df)"
      by (simp add: group_keys_set)
    from that(1) have "final_df \<noteq> []" by auto
    note shape [OF this]
    moreover from key
    have "map_of (map (\<lambda>k. (k, corr income gini (get_group final_df k))) (group_keys final_df)) y
            = Some (corr income gini (get_group final_df y))"
      by (rule map_of_keyed)
    ultimately show ?thesis
      using corr_few_rows [OF that(2)] by simp
  qed
  have none: "\<exists>cb. corr_by_year final_df = Inr cb \<and> map_of cb y = None"
    if "y \<notin> year ` set final_df" and "final_df \<noteq> []"
  proof -
    from that(1) have "y \<notin> set (group_keys final_df)"
      by (simp add: group_keys_set)
    then have "map_of (map (\<lambda>k. (k, corr income gini (get_group final_df k)))
                 (group_keys final_df)) y = None"
      by (simp add: map_of_eq_None_iff image_image)
    with shape [OF that(2)] show ?thesis by simp
  qed
  from one none show ?thesis by blast
qed

theorem C6_single_row_nan_witness:
  "2014 \<in> year ` set (frame_A @ [lone_county])
   \<and> length (get_group (frame_A @ [lone_county]) 2014) = 1
   \<and> (\<exists>cb. corr_by_year (frame_A @ [lone_county]) = Inr cb \<and> map_of cb 2014 = Some None)
   \<and> 2016 \<notin> year ` set (frame_A @ [lone_county])
   \<and> (\<exists>cb. corr_by_year (frame_A @ [lone_county]) = Inr cb \<and> map_of cb 2016 = None)"
proof -
  have y: "2014 \<in> year ` set (frame_A @ [lone_county])"
    by (simp add: lone_county_def)
  have n: "length (get_group (frame_A @ [lone_county]) 2014) = 1"
    by (simp add: get_group_def frame_A_def lone_county_def)
  have z: "2016 \<notin> year ` set (frame_A @ [lone_county])"
    by (simp add: frame_A_def lone_county_def)
  have ne: "frame_A @ [lone_county] \<noteq> []" by simp
  from n have n2: "length (get_group (frame_A @ [lone_county]) 2014) < 2" by simp
  from C6_single_row_nan [of 2014 "frame_A @ [lone_county]"] y n2
  have a: "\<exists>cb. corr_by_year (frame_A @ [lone_county]) = Inr cb \<and> map_of cb 2014 = Some None"
    by blast
  from C6_single_row_nan [of 2016 "frame_A @ [lone_county]"] z ne
  have b: "\<exists>cb. corr_by_year (frame_A @ [lone_county]) = Inr cb \<and> map_of cb 2016 = None"
    by blast
  show ?thesis using y n a z b by blast
qed

text \<open>
  C7. One year (2012) answers with three counties of incomes 50000, 60000, 70000 and
  Gini values 0.40, 0.42, 0.44, and the other years fail. The aggregate row of 2012 has
  mean income 60000, median income 60000 and county count 3, and the correlation of 2012
  is 1 (in exact arithmetic); the whole trace of the run is as follows.
\<close>

theorem C7_scenario_A:
  "fetch_acs_county_year scenario_A decimal_numeric 2012 = Inr frame_A
   \<and> map income frame_A = [Some 50000, Some 60000, Some 70000]
   \<and> map gini frame_A = [Some (40 / 100), Some (42 / 100), Some (44 / 100)]
   \<and> run scenario_A decimal_numeric =
     ([Print_ok 2012 3, Print_fail 2014 server_error, Print_fail 2016 server_error,
       Print_fail 2018 server_error, Print_fail 2022 server_error,
       Print_line (CHR 0x0A # ''=== Maryland statewide (county-average) trend ===''),
       Print_state_trend
         [\<lparr>trend_year = 2012, avg_income = Some 60000, median_income = Some 60000,
           avg_gini = Some (42 / 100), median_gini = Some (42 / 100), n_counties = 3\<rparr>],
       Print_line (CHR 0x0A # ''=== Correlation (county-level): income vs gini ===''),
       Print_corr_by_year [(2012, Some 1)],
       Print_overall_corr (Some 1),
       Show_plot ''Maryland Avg County Median Household Income (ACS 5-year)''
         [(2012, Some 60000)],
       Show_plot ''Maryland Avg County Gini Index (ACS 5-year)'' [(2012, Some (42 / 100))],
       Print_line (CHR 0x0A # ''=== Failed years ===''),
       Print_failed_year 2014 server_error, Print_failed_year 2016 server_error,
       Print_failed_year 2018 server_error, Print_failed_year 2022 server_error],
      None)"
proof -
  have frames: "fetched_frames scenario_A decimal_numeric YEARS = [frame_A]"
    by (simp add: fetched_frames_def succeeded_def fetch_scenario_A YEARS_def)
  have fails: "failures scenario_A decimal_numeric YEARS =
      [(2014, server_error), (2016, server_error), (2018, server_error), (2022, server_error)]"
    by (simp add: failures_def succeeded_def fetch_scenario_A YEARS_def)
  have lines: "map (loop_line scenario_A decimal_numeric) YEARS =
      [Print_ok 2012 3, Print_fail 2014 server_error, Print_fail 2016 server_error,
       Print_fail 2018 server_error, Print_fail 2022 server_error]"
    by (simp add: loop_line_def fetch_scenario_A YEARS_def frame_A_def)
  have cb: "corr_by_year frame_A = Inr [(2012, Some 1)]"
    by (simp add: corr_by_year_def group_keys_A get_group_A corr_A)
  have r: "run scenario_A decimal_numeric =
     ([Print_ok 2012 3, Print_fail 2014 server_error, Print_fail 2016 server_error,
       Print_fail 2018 server_error, Print_fail 2022 server_error,
       Print_line (CHR 0x0A # ''=== Maryland statewide (county-average) trend ===''),
       Print_state_trend
         [\<lparr>trend_year = 2012, avg_income = Some 60000, median_income = Some 60000,
           avg_gini = Some (42 / 100), median_gini = Some (42 / 100), n_counties = 3\<rparr>],
       Print_line (CHR 0x0A # ''=== Correlation (county-level): income vs gini ===''),
       Print_corr_by_year [(2012, Some 1)],
       Print_overall_corr (Some 1),
       Show_plot ''Maryland Avg County Median Household Income (ACS 5-year)''
         [(2012, Some 60000)],
       Show_plot ''Maryland Avg County Gini Index (ACS 5-year)'' [(2012, Some (42 / 100))],
       Print_line (CHR 0x0A # ''=== Failed years ===''),
       Print_failed_year 2014 server_error, Print_failed_year 2016 server_error,
       Print_failed_year 2018 server_error, Print_failed_year 2022 server_error],
      None)"
    unfolding run_def accum_of_loop frames fails lines Let_def
    by (simp add: state_trend_A cb corr_A plot_points_def report_failed_def)
  have f: "fetch_acs_county_year scenario_A decimal_numeric 2012 = Inr frame_A"
    by (simp add: fetch_scenario_A)
  have v: "map income frame_A = [Some 50000, Some 60000, Some 70000]"
      "map gini frame_A = [Some (40 / 100), Some (42 / 100), Some (44 / 100)]"
    by (simp_all add: frame_A_def)
  from f v r show ?thesis by simp
qed

text \<open>
  C9. The conversion of the two variable columns is made with \<^verbatim>\<open>errors="coerce"\<close>, under
  which a cell that does not parse becomes null and nothing is raised. Every row of a
  frame the fetcher returns has a value in both numeric columns. Whether the fetcher
  raises is decided by the request and the header alone, never by the cells or by what
  they parse to. For a response whose header has the five labels, none repeated, the
  fetcher returns the records of the rows whose two variables both convert.
\<close>

theorem C9_no_null_after_fetch:
  "to_numeric Errors_coerce parse (Series col) = Inr (map (to_float parse) col)
   \<and> (fetch_acs_county_year g parse y = Inr df_y \<longrightarrow>
        (\<forall>r\<in>set df_y. income r \<noteq> None \<and> gini r \<noteq> None))
   \<and> (g y = Inr df \<and> g' y' = Inr df' \<and> columns df = columns df' \<longrightarrow>
        isl (fetch_acs_county_year g parse y) = isl (fetch_acs_county_year g' parse' y'))
   \<and> (g y = Inr df \<and> distinct (columns df)
        \<and> set [''NAME'', ''state'', ''county'', VAR_INCOME, VAR_GINI] \<subseteq> set (columns df) \<longrightarrow>
        fetch_acs_county_year g parse y =
          Inr (map (row_record parse y) (filter (both_convert parse) (rows df))))"
proof -
  have coerce: "to_numeric Errors_coerce parse (Series col) = Inr (map (to_float parse) col)"
    by (simp add: to_numeric_def)
  have a: "\<forall>r\<in>set df_y. income r \<noteq> None \<and> gini r \<noteq> None"
    if "fetch_acs_county_year g parse y = Inr df_y"
    using that unfolding fetch_unfold
    by (auto simp: dropna_def notna_both_def split: sum.splits if_splits)
  have b: "isl (fetch_acs_county_year g parse y) = isl (fetch_acs_county_year g' parse' y')"
    if "g y = Inr df" and "g' y' = Inr df'" and "columns df = columns df'"
    using that unfolding fetch_unfold
    by (simp add: missing_columns_def)
  have c: "fetch_acs_county_year g parse y =
          Inr (map (row_record parse y) (filter (both_convert parse) (rows df)))"
    if "g y = Inr df" and "distinct (columns df)"
      and "set [''NAME'', ''state'', ''county'', VAR_INCOME, VAR_GINI] \<subseteq> set (columns df)"
  proof -
    from that(3) have m: "missing_columns df = []"
      by (simp add: missing_columns_def)
    from that(2,3) have once: "count_list (columns df) VAR_INCOME = 1"
        "count_list (columns df) VAR_GINI = 1"
      by (simp_all add: count_list_distinct)
    have "dropna (map (row_record parse y) (rows df))
        = map (row_record parse y) (filter (both_convert parse) (rows df))"
      by (simp add: dropna_def filter_map o_def notna_both_def row_record_def
            both_convert_def [abs_def] del: not_None_eq)
    with m once that(1,3) show ?thesis
      unfolding fetch_unfold by simp
  qed
  from coerce a b c show ?thesis by blast
qed

theorem C9_no_null_after_fetch_witness:
  "fetch_acs_county_year scenario_mixed decimal_numeric 2018 =
       Inr [\<lparr>NAME = Str ''Allegany County, Maryland'', state = Str ''24'', county = Str ''001'',
             year = 2018, income = Some 50000, gini = Some (2 / 5)\<rparr>]
   \<and> scenario_mixed 2018 = Inr mixed_rows
   \<and> scenario_no_rows 2018 = Inr unparseable_rows
   \<and> columns mixed_rows = columns unparseable_rows
   \<and> isl (fetch_acs_county_year scenario_mixed decimal_numeric 2018)
        = isl (fetch_acs_county_year scenario_no_rows decimal_numeric 2018)
   \<and> distinct (columns mixed_rows)
   \<and> set [''NAME'', ''state'', ''county'', VAR_INCOME, VAR_GINI] \<subseteq> set (columns mixed_rows)
   \<and> map (both_convert decimal_numeric) (rows mixed_rows) = [True, False, False]
   \<and> map (row_record decimal_numeric 2018) (filter (both_convert decimal_numeric) (rows mixed_rows))
       = [\<lparr>NAME = Str ''Allegany County, Maryland'', state = Str ''24'', county = Str ''001'',
             year = 2018, income = Some 50000, gini = Some (2 / 5)\<rparr>]"
proof -
  have g: "scenario_mixed 2018 = Inr mixed_rows" by (simp add: scenario_mixed_def)
  have g': "scenario_no_rows 2018 = Inr unparseable_rows" by (simp add: scenario_no_rows_def)
  have cols: "columns mixed_rows = columns unparseable_rows"
    by (simp add: mixed_rows_def unparseable_rows_def)
  have d: "distinct (columns mixed_rows)"
    by (simp add: mixed_rows_def api_columns_def VAR_INCOME_def VAR_GINI_def)
  have c: "set [''NAME'', ''state'', ''county'', VAR_INCOME, VAR_GINI] \<subseteq> set (columns mixed_rows)"
    by (simp add: mixed_rows_def api_columns_def)
  have bc: "map (both_convert decimal_numeric) (rows mixed_rows) = [True, False, False]"
    by (simp add: both_convert_def to_float_def mixed_rows_def api_row_def VAR_INCOME_def
          VAR_GINI_def decimal_numeric_def unsigned_decimal_def digit_of_def)
  note inst = C9_no_null_after_fetch
    [of decimal_numeric _ scenario_mixed 2018 _ mixed_rows scenario_no_rows 2018
        unparseable_rows decimal_numeric]
  from inst g g' cols
  have same: "isl (fetch_acs_county_year scenario_mixed decimal_numeric 2018)
        = isl (fetch_acs_county_year scenario_no_rows decimal_numeric 2018)"
    by blast
  from inst g d c
  have res: "fetch_acs_county_year scenario_mixed decimal_numeric 2018 =
          Inr (map (row_record decimal_numeric 2018)
                 (filter (both_convert decimal_numeric) (rows mixed_rows)))"
    by blast
  from res fetch_scenario_mixed [of 2018]
  have rows: "map (row_record decimal_numeric 2018)
                (filter (both_convert decimal_numeric) (rows mixed_rows))
       = [\<lparr>NAME = Str ''Allegany County, Maryland'', state = Str ''24'', county = Str ''001'',
             year = 2018, income = Some 50000, gini = Some (2 / 5)\<rparr>]"
    by simp
  from fetch_scenario_mixed [of 2018] g g' cols same d c bc rows show ?thesis
    by blast
qed

text \<open>
  C10. A configured year whose fetch returns a frame of zero rows is a success: the empty
  frame is in \<^verbatim>\<open>all_dfs\<close>, the year is not in \<^verbatim>\<open>failed_years\<close>, its \<^verbatim>\<open>[OK]\<close> line with
  \<^verbatim>\<open>rows=0\<close> is printed, and the run does not end with the guard's RuntimeError, whatever
  the other years did.
\<close>

theorem C10_empty_frame_is_success:
  assumes "y \<in> set YEARS"
    and "fetch_acs_county_year g tn y = Inr []"
  shows "[] \<in> set (all_dfs (fetch_loop g tn YEARS init_accum))
       \<and> y \<notin> fst ` set (failed_years (fetch_loop g tn YEARS init_accum))
       \<and> Print_ok y 0 \<in> set (fst (run g tn))
       \<and> snd (run g tn) \<noteq> Some no_data_fetched"
proof -
  from assms(2) have ok: "succeeded g tn y" by (simp add: succeeded_def)
  with assms have frames: "[] \<in> set (fetched_frames g tn YEARS)"
    by (force simp: fetched_frames_def)
  then have nonempty: "fetched_frames g tn YEARS \<noteq> []" by auto
  from ok have notfailed: "y \<notin> fst ` set (failures g tn YEARS)"
    by (force simp: failures_def)
  from assms have "Print_ok y 0 \<in> set (map (loop_line g tn) YEARS)"
    by (force simp: loop_line_def)
  with nonempty have printed: "Print_ok y 0 \<in> set (fst (run g tn))"
    by (auto simp: run_def accum_of_loop Let_def split: sum.splits)
  from frames notfailed printed run_guard_passes(2) [OF nonempty]
  show ?thesis by (simp add: accum_of_loop)
qed

theorem C10_empty_frame_is_success_witness:
  "2014 \<in> set YEARS
   \<and> fetch_acs_county_year scenario_no_rows decimal_numeric 2014 = Inr []
   \<and> [] \<in> set (all_dfs (fetch_loop scenario_no_rows decimal_numeric YEARS init_accum))
   \<and> 2014 \<notin> fst ` set (failed_years (fetch_loop scenario_no_rows decimal_numeric YEARS init_accum))
   \<and> Print_ok 2014 0 \<in> set (fst (run scenario_no_rows decimal_numeric))
   \<and> snd (run scenario_no_rows decimal_numeric) \<noteq> Some no_data_fetched"
proof -
  have y: "2014 \<in> set YEARS" by (simp add: YEARS_def)
  from C10_empty_frame_is_success [OF y fetch_scenario_no_rows] y fetch_scenario_no_rows
  show ?thesis by simp
qed

end
